theory Spec2Isabelle
  imports Main "HOL-Library.FSet"
begin

section \<open>snykwire: a guarded \<open>require\<close> over the shared module cache\<close>

text \<open>
  The development embeds \<^verbatim>\<open>src/snykwire.js\<close>. The exported function swaps the
  process-wide \<^verbatim>\<open>Module._cache\<close> for a \<^verbatim>\<open>Proxy\<close> whose traps consult a policy,
  calls the host's \<^verbatim>\<open>require\<close>, and puts the captured reference back in a
  \<^verbatim>\<open>finally\<close> block.

  Two collaborators belong to the host runtime and are parameters of the model:
  \<^item> \<^verbatim>\<open>require.resolve\<close>, a function from a module identifier to its resolved
    identifier, \<open>None\<close> where the host throws because the name cannot be resolved;
  \<^item> \<^verbatim>\<open>require\<close>, the host loader: a function from the requested name and the
    global state to a result (a thrown error or the exports) and the state it leaves.
    The loader is assumed to return; a load that hangs gives no post-state at all.
\<close>

subsection \<open>Errors\<close>

text \<open>
  Every \<^verbatim>\<open>throw new Error(...)\<close> of the source is a constructor carrying the values
  interpolated into its message. \<open>CannotResolve\<close> is what \<^verbatim>\<open>require.resolve\<close> throws,
  \<open>NotExtensible\<close> the \<^verbatim>\<open>TypeError\<close> of a strict-mode assignment that would add a
  key to a non-extensible object, \<open>ModuleError\<close> anything the loaded code throws by
  itself.
\<close>

datatype error =
    BothLists
  | BareWithList
  | ForbiddenAction string string
  | LockAttempt string
  | CannotResolve string
  | NotExtensible string
  | ModuleError string

definition quoted :: "string \<Rightarrow> string" where
  "quoted n = CHR 0x27 # n @ [CHR 0x27]"

fun message :: "error \<Rightarrow> string" where
  "message BothLists = ''You cannot snykwire with both a blacklist and a whitelist''"
| "message BareWithList =
     ''You cannot use bare snykwire with either a blacklist or a whitelist''"
| "message (ForbiddenAction moduleName resolvedName) =
     ''Module '' @ quoted moduleName @ '' has attempted forbidden action with module ''
       @ quoted resolvedName"
| "message (LockAttempt moduleName) =
     ''Module '' @ quoted moduleName @ '' tried to lock your module cache''"
| "message (CannotResolve n) = ''Cannot find module '' @ quoted n"
| "message (NotExtensible k) = ''Cannot add property '' @ k @ '', object is not extensible''"
| "message (ModuleError m) = m"

text \<open>The taxonomy the specification lays over these errors.\<close>

datatype error_class =
  ConfigurationError | ResolutionError | AccessViolationError | OtherError

fun classify :: "error \<Rightarrow> error_class" where
  "classify BothLists = ConfigurationError"
| "classify BareWithList = ConfigurationError"
| "classify (ForbiddenAction _ _) = AccessViolationError"
| "classify (LockAttempt _) = AccessViolationError"
| "classify (CannotResolve _) = ResolutionError"
| "classify (NotExtensible _) = OtherError"
| "classify (ModuleError _) = OtherError"

subsection \<open>JavaScript values of the policy expressions\<close>

text \<open>
  \<^verbatim>\<open>blacklist.size && blacklist.has(x)\<close> is the number \<open>0\<close> for an empty set and a
  boolean otherwise; \<^verbatim>\<open>&&\<close> and \<^verbatim>\<open>||\<close> return one of their operands, and only the
  \<^verbatim>\<open>if\<close> of the ensurer turns the value into a truth value.
\<close>

datatype jsval = JNum nat | JBool bool

fun truthy :: "jsval \<Rightarrow> bool" where
  "truthy (JNum n) = (0 < n)"
| "truthy (JBool b) = b"

definition js_and :: "jsval \<Rightarrow> jsval \<Rightarrow> jsval" where
  "js_and a b = (if truthy a then b else a)"

definition js_or :: "jsval \<Rightarrow> jsval \<Rightarrow> jsval" where
  "js_or a b = (if truthy a then a else b)"

subsection \<open>The policy (lines 3 to 18)\<close>

type_synonym resolver = "string \<Rightarrow> string option"

definition isBlacklisted :: "string fset \<Rightarrow> string \<Rightarrow> jsval" where
  "isBlacklisted blacklist resolvedName =
     js_and (JNum (fcard blacklist)) (JBool (resolvedName |\<in>| blacklist))"

definition isWhitelisted :: "string fset \<Rightarrow> string \<Rightarrow> jsval" where
  "isWhitelisted whitelist resolvedName =
     js_and (JNum (fcard whitelist)) (JBool (resolvedName |\<notin>| whitelist))"

text \<open>
  \<^verbatim>\<open>bare && require.resolve(moduleName) !== resolvedName\<close> short-circuits: the
  resolver runs only when \<open>bare\<close> is true, and its failure is thrown out of the
  policy itself.
\<close>

definition isForbidden ::
  "resolver \<Rightarrow> string fset \<Rightarrow> string fset \<Rightarrow> bool \<Rightarrow> string \<Rightarrow> string \<Rightarrow> error + jsval"
where
  "isForbidden require_resolve blacklist whitelist bare moduleName resolvedName =
     (if bare then
        (case require_resolve moduleName of
           None \<Rightarrow> Inl (CannotResolve moduleName)
         | Some r \<Rightarrow>
             Inr (js_or (js_or (JBool (r \<noteq> resolvedName))
                          (isBlacklisted blacklist resolvedName))
                    (isWhitelisted whitelist resolvedName)))
      else
        Inr (js_or (js_or (JBool bare) (isBlacklisted blacklist resolvedName))
               (isWhitelisted whitelist resolvedName)))"

definition getEnsurer ::
  "resolver \<Rightarrow> string fset \<Rightarrow> string fset \<Rightarrow> bool \<Rightarrow> string \<Rightarrow> string \<Rightarrow> error + unit"
where
  "getEnsurer require_resolve blacklist whitelist bare moduleName resolvedName =
     (case isForbidden require_resolve blacklist whitelist bare moduleName resolvedName of
        Inl e \<Rightarrow> Inl e
      | Inr v \<Rightarrow>
          if truthy v then Inl (ForbiddenAction moduleName resolvedName) else Inr ())"

text \<open>
  The chain of the specification (section 4.1), written from its words to be compared
  with \<open>isForbidden\<close>; \<open>resolve(requestedName)\<close> fails as the host resolver does.
\<close>

definition spec_isForbidden ::
  "resolver \<Rightarrow> string fset \<Rightarrow> string fset \<Rightarrow> bool \<Rightarrow> string \<Rightarrow> string \<Rightarrow> error + bool"
where
  "spec_isForbidden resolve disallowSet allowSet solo requestedName resolvedName =
     (if solo then
        (case resolve requestedName of
           None \<Rightarrow> Inl (CannotResolve requestedName)
         | Some r \<Rightarrow> Inr (resolvedName \<noteq> r))
      else if disallowSet \<noteq> {||} then Inr (resolvedName |\<in>| disallowSet)
      else if allowSet \<noteq> {||} then Inr (resolvedName |\<notin>| allowSet)
      else Inr False)"

subsection \<open>Objects, references and the global state\<close>

text \<open>
  The cache is an ordinary object: a mapping from resolved identifiers to module
  records, with the extensibility flag that \<^verbatim>\<open>Object.preventExtensions\<close> clears.
  Ordinary objects live in a store and are shared by address. A proxy has no storage
  of its own: its target and the variables its handler closes over (\<open>blacklist\<close>,
  \<open>whitelist\<close>, \<open>bare\<close>, \<open>moduleName\<close>) are fixed when it is built, so a reference to
  a proxy is its identity together with those.
\<close>

record 'm plain =
  entries :: "string \<rightharpoonup> 'm"
  extensible :: bool

record handler =
  h_blacklist :: "string fset"
  h_whitelist :: "string fset"
  h_bare :: bool
  h_moduleName :: string

datatype ref = Obj nat | Prox nat ref handler

record 'm state =
  objects :: "nat \<Rightarrow> 'm plain"
  module_cache :: ref
  next_id :: nat

definition ensure :: "resolver \<Rightarrow> handler \<Rightarrow> string \<Rightarrow> error + unit" where
  "ensure require_resolve h resolvedName =
     getEnsurer require_resolve (h_blacklist h) (h_whitelist h) (h_bare h) (h_moduleName h)
       resolvedName"

text \<open>
  Assignment to an ordinary object in non-strict code (the source file has no strict
  directive): a new key of a non-extensible object is silently not added.
\<close>

definition plain_set :: "'m plain \<Rightarrow> string \<Rightarrow> 'm \<Rightarrow> 'm plain" where
  "plain_set ob k v =
     (if extensible ob \<or> entries ob k \<noteq> None then ob\<lparr>entries := (entries ob)(k \<mapsto> v)\<rparr>
      else ob)"

definition plain_delete :: "'m plain \<Rightarrow> string \<Rightarrow> 'm plain" where
  "plain_delete ob k = ob\<lparr>entries := (entries ob)(k := None)\<rparr>"

text \<open>Writing an ordinary object back at its address.\<close>

definition put_object :: "'m state \<Rightarrow> nat \<Rightarrow> 'm plain \<Rightarrow> 'm state" where
  "put_object s a ob = s\<lparr>objects := (objects s)(a := ob)\<rparr>"

text \<open>
  The five operations on a reference. On an ordinary object they are the language's
  own; on a proxy each equation is the trap of the handler (lines 36 to 60), whose
  \<open>target\<close> may again be a proxy when invocations nest.
\<close>

fun cache_get :: "resolver \<Rightarrow> 'm state \<Rightarrow> ref \<Rightarrow> string \<Rightarrow> error + 'm option" where
  "cache_get rr s (Obj a) resolvedName = Inr (entries (objects s a) resolvedName)"
| "cache_get rr s (Prox i target h) resolvedName =
     (case ensure rr h resolvedName of
        Inl e \<Rightarrow> Inl e
      | Inr _ \<Rightarrow> cache_get rr s target resolvedName)"

fun cache_set ::
  "resolver \<Rightarrow> 'm state \<Rightarrow> ref \<Rightarrow> string \<Rightarrow> 'm \<Rightarrow> (error + bool) \<times> 'm state" where
  "cache_set rr s (Obj a) resolvedName mdl =
     (Inr True, put_object s a (plain_set (objects s a) resolvedName mdl))"
| "cache_set rr s (Prox i target h) resolvedName mdl =
     (case ensure rr h resolvedName of
        Inl e \<Rightarrow> (Inl e, s)
      | Inr _ \<Rightarrow>
          (case cache_set rr s target resolvedName mdl of
             (Inl e, s') \<Rightarrow> (Inl e, s')
           | (Inr _, s') \<Rightarrow> (Inr True, s')))"

fun cache_has :: "resolver \<Rightarrow> 'm state \<Rightarrow> ref \<Rightarrow> string \<Rightarrow> error + bool" where
  "cache_has rr s (Obj a) resolvedName = Inr (entries (objects s a) resolvedName \<noteq> None)"
| "cache_has rr s (Prox i target h) resolvedName =
     (case ensure rr h resolvedName of
        Inl e \<Rightarrow> Inl e
      | Inr _ \<Rightarrow> cache_has rr s target resolvedName)"

fun cache_deleteProperty ::
  "resolver \<Rightarrow> 'm state \<Rightarrow> ref \<Rightarrow> string \<Rightarrow> (error + bool) \<times> 'm state" where
  "cache_deleteProperty rr s (Obj a) resolvedName =
     (Inr True, put_object s a (plain_delete (objects s a) resolvedName))"
| "cache_deleteProperty rr s (Prox i target h) resolvedName =
     (case ensure rr h resolvedName of
        Inl e \<Rightarrow> (Inl e, s)
      | Inr _ \<Rightarrow>
          (case cache_deleteProperty rr s target resolvedName of
             (Inl e, s') \<Rightarrow> (Inl e, s')
           | (Inr _, s') \<Rightarrow> (Inr True, s')))"

fun cache_preventExtensions :: "'m state \<Rightarrow> ref \<Rightarrow> (error + unit) \<times> 'm state" where
  "cache_preventExtensions s (Obj a) =
     (Inr (), put_object s a ((objects s a)\<lparr>extensible := False\<rparr>))"
| "cache_preventExtensions s (Prox i target h) = (Inl (LockAttempt (h_moduleName h)), s)"

text \<open>
  An assignment \<^verbatim>\<open>Module._cache[k] = v\<close> made by running code, strict or not. On a
  view it is the \<open>set\<close> trap, which reports \<open>true\<close> or throws, so strictness makes no
  difference. On an ordinary object, strict code throws where the key would be new and
  the object is not extensible; non-strict code drops the write silently.
\<close>

definition assign ::
  "bool \<Rightarrow> resolver \<Rightarrow> 'm state \<Rightarrow> ref \<Rightarrow> string \<Rightarrow> 'm \<Rightarrow> (error + bool) \<times> 'm state" where
  "assign strict rr s r k v =
     (case r of
        Obj a \<Rightarrow>
          if strict \<and> \<not> extensible (objects s a) \<and> entries (objects s a) k = None
          then (Inl (NotExtensible k), s)
          else cache_set rr s r k v
      | Prox i target h \<Rightarrow> cache_set rr s r k v)"

text \<open>The ordinary object at the bottom of a stack of views.\<close>

primrec underlying :: "ref \<Rightarrow> nat" where
  "underlying (Obj a) = a"
| "underlying (Prox i target h) = underlying target"

subsection \<open>The exported function (lines 20 to 67)\<close>

text \<open>
  The second parameter and each of its three properties may be missing; the
  destructuring pattern \<^verbatim>\<open>{ blacklist=[], whitelist=[], bare=false }={}\<close> supplies
  the defaults.
\<close>

record options =
  opt_blacklist :: "string list option"
  opt_whitelist :: "string list option"
  opt_bare :: "bool option"

definition no_options :: options where
  "no_options = \<lparr>opt_blacklist = None, opt_whitelist = None, opt_bare = None\<rparr>"

definition destructure :: "options option \<Rightarrow> string list \<times> string list \<times> bool" where
  "destructure opts =
     (let ob = (case opts of None \<Rightarrow> no_options | Some ob \<Rightarrow> ob)
      in (case opt_blacklist ob of None \<Rightarrow> [] | Some xs \<Rightarrow> xs,
          case opt_whitelist ob of None \<Rightarrow> [] | Some xs \<Rightarrow> xs,
          case opt_bare ob of None \<Rightarrow> False | Some b \<Rightarrow> b))"

text \<open>\<^verbatim>\<open>xs.map(require.resolve)\<close>: left to right, the first failure is thrown.\<close>

fun map_resolve :: "resolver \<Rightarrow> string list \<Rightarrow> error + string list" where
  "map_resolve rr [] = Inr []"
| "map_resolve rr (x # xs) =
     (case rr x of
        None \<Rightarrow> Inl (CannotResolve x)
      | Some y \<Rightarrow>
          (case map_resolve rr xs of
             Inl e \<Rightarrow> Inl e
           | Inr ys \<Rightarrow> Inr (y # ys)))"

type_synonym ('m, 'v) loader = "string \<Rightarrow> 'm state \<Rightarrow> (error + 'v) \<times> 'm state"

text \<open>
  Lines 20 to 31: the two checks on the combination of options, then the resolution
  of the blacklist and of the whitelist, in this order, and the closure of the
  ensurer over the two sets, \<open>bare\<close> and \<open>moduleName\<close>.
\<close>

definition policy_of_options :: "resolver \<Rightarrow> string \<Rightarrow> options option \<Rightarrow> error + handler" where
  "policy_of_options require_resolve moduleName opts =
     (case destructure opts of (blacklist, whitelist, bare) \<Rightarrow>
        if 0 < length blacklist \<and> 0 < length whitelist then Inl BothLists
        else if bare \<and> (0 < length blacklist \<or> 0 < length whitelist) then Inl BareWithList
        else
          (case map_resolve require_resolve blacklist of
             Inl e \<Rightarrow> Inl e
           | Inr bl \<Rightarrow>
               (case map_resolve require_resolve whitelist of
                  Inl e \<Rightarrow> Inl e
                | Inr wl \<Rightarrow>
                    Inr \<lparr>h_blacklist = fset_of_list bl, h_whitelist = fset_of_list wl,
                         h_bare = bare, h_moduleName = moduleName\<rparr>)))"

text \<open>
  Lines 35 to 61: build the proxy over the current cache, with a fresh identity, and
  assign it to \<^verbatim>\<open>Module._cache\<close>.
\<close>

definition install :: "handler \<Rightarrow> 'm state \<Rightarrow> 'm state" where
  "install h s =
     s\<lparr>module_cache := Prox (next_id s) (module_cache s) h, next_id := Suc (next_id s)\<rparr>"

text \<open>
  The exported function. Line 33 captures the reference in \<open>cache\<close>; lines 62 to 66
  run the host loader and, whether it returned or threw, assign \<open>cache\<close> back.
\<close>

definition guardedRequire ::
  "resolver \<Rightarrow> ('m, 'v) loader \<Rightarrow> string \<Rightarrow> options option \<Rightarrow> 'm state
     \<Rightarrow> (error + 'v) \<times> 'm state"
where
  "guardedRequire require_resolve require moduleName opts s =
     (case policy_of_options require_resolve moduleName opts of
        Inl e \<Rightarrow> (Inl e, s)
      | Inr h \<Rightarrow>
          (let cache = module_cache s;
               s1 = install h s
           in (case require moduleName s1 of
                 (r, s2) \<Rightarrow> (r, s2\<lparr>module_cache := cache\<rparr>))))"

text \<open>A loaded module that itself calls the exported function: a nested invocation.\<close>

definition reentrant ::
  "resolver \<Rightarrow> ('m, 'v) loader \<Rightarrow> string \<Rightarrow> options option \<Rightarrow> ('m, 'v) loader" where
  "reentrant require_resolve inner innerName innerOpts =
     (\<lambda>_ s. guardedRequire require_resolve inner innerName innerOpts s)"

text \<open>What the policy of a handler decides for a key, when its evaluation returns.\<close>

definition forbids :: "resolver \<Rightarrow> handler \<Rightarrow> string \<Rightarrow> bool" where
  "forbids rr h k =
     (case isForbidden rr (h_blacklist h) (h_whitelist h) (h_bare h) (h_moduleName h) k of
        Inl _ \<Rightarrow> False
      | Inr v \<Rightarrow> truthy v)"

definition permits :: "resolver \<Rightarrow> handler \<Rightarrow> string \<Rightarrow> bool" where
  "permits rr h k =
     (case isForbidden rr (h_blacklist h) (h_whitelist h) (h_bare h) (h_moduleName h) k of
        Inl _ \<Rightarrow> False
      | Inr v \<Rightarrow> \<not> truthy v)"


text \<open>The configuration invariant: at most one of the three restrictions is set.\<close>

definition mutually_exclusive :: "bool \<Rightarrow> string fset \<Rightarrow> string fset \<Rightarrow> bool" where
  "mutually_exclusive solo disallowSet allowSet =
     (length (filter id [solo, disallowSet \<noteq> {||}, allowSet \<noteq> {||}]) \<le> 1)"

subsection \<open>Loaded code that reaches the cache through the installed view\<close>

text \<open>
  What a load does to the cache is a tree of operations on whatever
  \<^verbatim>\<open>Module._cache\<close> currently is, each continuing with the value it got; an error
  ends the program unless a \<open>Try\<close> around it hands the outcome to a continuation.
  A \<open>Set\<close> says whether the code that writes is strict (the host's own loader is) or
  not. \<open>run\<close> is a host loader for every such program. A program does not assign
  \<^verbatim>\<open>Module._cache\<close> itself; statements about an arbitrary loader cover loads that
  do.
\<close>

datatype ('m, 'v) prog =
    Return 'v
  | Throw error
  | Get string "'m option \<Rightarrow> ('m, 'v) prog"
  | Set bool string 'm "('m, 'v) prog"
  | Has string "bool \<Rightarrow> ('m, 'v) prog"
  | Delete string "('m, 'v) prog"
  | PreventExtensions "('m, 'v) prog"
  | Try "('m, 'v) prog" "error + 'v \<Rightarrow> ('m, 'v) prog"

primrec run :: "resolver \<Rightarrow> ('m, 'v) prog \<Rightarrow> 'm state \<Rightarrow> (error + 'v) \<times> 'm state" where
  "run rr (Return v) = (\<lambda>s. (Inr v, s))"
| "run rr (Throw e) = (\<lambda>s. (Inl e, s))"
| "run rr (Get k f) =
     (\<lambda>s. case cache_get rr s (module_cache s) k of
             Inl e \<Rightarrow> (Inl e, s)
           | Inr x \<Rightarrow> run rr (f x) s)"
| "run rr (Set strict k v p) =
     (\<lambda>s. case assign strict rr s (module_cache s) k v of
             (Inl e, s') \<Rightarrow> (Inl e, s')
           | (Inr _, s') \<Rightarrow> run rr p s')"
| "run rr (Has k f) =
     (\<lambda>s. case cache_has rr s (module_cache s) k of
             Inl e \<Rightarrow> (Inl e, s)
           | Inr b \<Rightarrow> run rr (f b) s)"
| "run rr (Delete k p) =
     (\<lambda>s. case cache_deleteProperty rr s (module_cache s) k of
             (Inl e, s') \<Rightarrow> (Inl e, s')
           | (Inr _, s') \<Rightarrow> run rr p s')"
| "run rr (PreventExtensions p) =
     (\<lambda>s. case cache_preventExtensions s (module_cache s) of
             (Inl e, s') \<Rightarrow> (Inl e, s')
           | (Inr _, s') \<Rightarrow> run rr p s')"
| "run rr (Try p k) = (\<lambda>s. case run rr p s of (r, s') \<Rightarrow> run rr (k r) s')"

text \<open>
  The installed cache takes a strict write of a new key without throwing: it is a view,
  or an ordinary object that is still extensible.
\<close>

definition accepts_new_keys :: "'m state \<Rightarrow> bool" where
  "accepts_new_keys s =
     (case module_cache s of
        Obj a \<Rightarrow> extensible (objects s a)
      | Prox i target h \<Rightarrow> True)"



text \<open>
  The program applied to one ordinary object directly, each keyed operation first
  passing the check \<open>ens\<close>, a lock attempt refused: what it means for the permitted
  operations of a load to act on the original mapping itself. Every write is the
  non-strict one of the trap, whatever the strictness of the code that asked for it.
\<close>

primrec direct ::
  "(string \<Rightarrow> error + unit) \<Rightarrow> string \<Rightarrow> ('m, 'v) prog \<Rightarrow> 'm plain \<Rightarrow> (error + 'v) \<times> 'm plain"
where
  "direct ens n (Return v) = (\<lambda>ob. (Inr v, ob))"
| "direct ens n (Throw e) = (\<lambda>ob. (Inl e, ob))"
| "direct ens n (Get k f) =
     (\<lambda>ob. case ens k of Inl e \<Rightarrow> (Inl e, ob) | Inr _ \<Rightarrow> direct ens n (f (entries ob k)) ob)"
| "direct ens n (Set strict k v p) =
     (\<lambda>ob. case ens k of Inl e \<Rightarrow> (Inl e, ob) | Inr _ \<Rightarrow> direct ens n p (plain_set ob k v))"
| "direct ens n (Has k f) =
     (\<lambda>ob. case ens k of
              Inl e \<Rightarrow> (Inl e, ob)
            | Inr _ \<Rightarrow> direct ens n (f (entries ob k \<noteq> None)) ob)"
| "direct ens n (Delete k p) =
     (\<lambda>ob. case ens k of Inl e \<Rightarrow> (Inl e, ob) | Inr _ \<Rightarrow> direct ens n p (plain_delete ob k))"
| "direct ens n (PreventExtensions p) = (\<lambda>ob. (Inl (LockAttempt n), ob))"
| "direct ens n (Try p k) = (\<lambda>ob. case direct ens n p ob of (r, ob') \<Rightarrow> direct ens n (k r) ob')"

subsection \<open>A small host for concrete runs\<close>

definition host_resolve :: resolver where
  "host_resolve =
     map_of [(''fs'', ''fs''), (''net'', ''net''), (''./m'', ''/app/m.js''),
             (''./inner'', ''/app/inner.js'')]"

definition empty_cache :: "string plain" where
  "empty_cache = \<lparr>entries = Map.empty, extensible = True\<rparr>"

definition boot :: "string state" where
  "boot = \<lparr>objects = (\<lambda>_. empty_cache), module_cache = Obj 0, next_id = 0\<rparr>"

text \<open>The same process after something locked its cache.\<close>

definition locked_boot :: "string state" where
  "locked_boot =
     \<lparr>objects = (\<lambda>_. \<lparr>entries = Map.empty, extensible = False\<rparr>), module_cache = Obj 0,
      next_id = 0\<rparr>"

definition only_blacklist :: "string list \<Rightarrow> options option" where
  "only_blacklist xs = Some \<lparr>opt_blacklist = Some xs, opt_whitelist = None, opt_bare = None\<rparr>"

definition only_whitelist :: "string list \<Rightarrow> options option" where
  "only_whitelist xs = Some \<lparr>opt_blacklist = None, opt_whitelist = Some xs, opt_bare = None\<rparr>"

definition only_bare :: "options option" where
  "only_bare = Some \<lparr>opt_blacklist = None, opt_whitelist = None, opt_bare = Some True\<rparr>"

definition fs_blacklisted :: handler where
  "fs_blacklisted =
     \<lparr>h_blacklist = {|''fs''|}, h_whitelist = {||}, h_bare = False, h_moduleName = ''./m''\<rparr>"

text \<open>
  The host's load of one file, as the runtime does it: the resolved name is read from
  the cache; a hit returns what is cached; on a miss the new record is written to the
  cache, by the loader's strict code, before the body of the module runs, and deleted
  again when the body throws.
\<close>

definition node_load :: "string \<Rightarrow> string \<Rightarrow> (string, string) prog \<Rightarrow> (string, string) prog" where
  "node_load filename record body =
     Get filename (\<lambda>cached.
       case cached of
         Some r \<Rightarrow> Return r
       | None \<Rightarrow>
           Set True filename record
             (Try body (\<lambda>outcome.
                case outcome of
                  Inl e \<Rightarrow> Delete filename (Throw e)
                | Inr v \<Rightarrow> Return v)))"

text \<open>The load of a module whose body plants a record in the cache and then requires \<open>fs\<close>.\<close>

definition plants_then_requires_fs :: "(string, string) prog" where
  "plants_then_requires_fs =
     node_load ''/app/m.js'' ''record of m''
       (Set False ''/app/planted.js'' ''planted record''
          (Get ''fs'' (\<lambda>_. Return ''exports of m'')))"

text \<open>The load of a module whose body requires \<open>fs\<close>.\<close>

definition requires_fs :: "(string, string) prog" where
  "requires_fs =
     node_load ''/app/m.js'' ''record of m'' (Get ''fs'' (\<lambda>_. Return ''exports of m''))"


text \<open>The load of a module whose body touches nothing.\<close>

definition records_itself :: "(string, string) prog" where
  "records_itself = node_load ''/app/m.js'' ''record of m'' (Return ''exports of m'')"

section \<open>Properties\<close>

subsection \<open>The scenarios of the test file\<close>

text \<open>
  The four accepted configurations of \<^verbatim>\<open>src/test.js\<close>, on a module that requires
  \<open>fs\<close>: a blacklist naming \<open>fs\<close> and \<open>bare\<close> stop the nested require; a whitelist
  naming only \<open>net\<close> already stops the read of the module's own cache key; without
  options the load goes through.
\<close>

lemmas scenario_defs =
  guardedRequire_def policy_of_options_def destructure_def no_options_def only_blacklist_def
  only_whitelist_def only_bare_def host_resolve_def install_def requires_fs_def node_load_def
  boot_def empty_cache_def ensure_def getEnsurer_def isForbidden_def isBlacklisted_def
  isWhitelisted_def js_and_def js_or_def plain_set_def plain_delete_def put_object_def
  assign_def

lemma scenario_blacklist:
  "fst (guardedRequire host_resolve (\<lambda>_. run host_resolve requires_fs) ''./m''
          (only_blacklist [''fs'']) boot)
     = Inl (ForbiddenAction ''./m'' ''fs'')"
  by (simp add: scenario_defs)

lemma scenario_whitelist:
  "fst (guardedRequire host_resolve (\<lambda>_. run host_resolve requires_fs) ''./m''
          (only_whitelist [''net'']) boot)
     = Inl (ForbiddenAction ''./m'' ''/app/m.js'')"
  by (simp add: scenario_defs)

lemma scenario_bare:
  "fst (guardedRequire host_resolve (\<lambda>_. run host_resolve requires_fs) ''./m'' only_bare boot)
     = Inl (ForbiddenAction ''./m'' ''fs'')"
  by (simp add: scenario_defs)

lemma scenario_unprotected:
  "fst (guardedRequire host_resolve (\<lambda>_. run host_resolve requires_fs) ''./m'' None boot)
     = Inr ''exports of m''"
  by (simp add: scenario_defs)

subsection \<open>The traps\<close>

lemma put_object_same [simp]: "put_object s a (objects s a) = s"
  by (cases s) (simp add: put_object_def)

lemma put_object_fields [simp]:
  "objects (put_object s a ob) = (objects s)(a := ob)"
  "module_cache (put_object s a ob) = module_cache s"
  "next_id (put_object s a ob) = next_id s"
  by (simp_all add: put_object_def)

lemma put_object_twice [simp]: "put_object (put_object s a x) a y = put_object s a y"
  by (simp add: put_object_def)

lemma put_object_frame [simp]:
  "put_object (s\<lparr>module_cache := c, next_id := j\<rparr>) a ob
     = (put_object s a ob)\<lparr>module_cache := c, next_id := j\<rparr>"
  by (simp add: put_object_def)

lemma assign_Prox [simp]:
  "assign strict rr s (Prox i t h) k v = cache_set rr s (Prox i t h) k v"
  by (simp add: assign_def)

lemma assign_non_strict [simp]: "assign False rr s t k v = cache_set rr s t k v"
  by (cases t) (simp_all add: assign_def)

lemma cache_set_reports_true: "cache_set rr s t k v = (Inr b, s') \<Longrightarrow> b"
  by (induction t arbitrary: s') (auto split: sum.splits prod.splits)

lemma cache_set_Prox_permitted:
  "ensure rr h k = Inr u \<Longrightarrow> cache_set rr s (Prox i t h) k v = cache_set rr s t k v"
  using cache_set_reports_true [of rr s t k v]
  by (auto split: sum.splits prod.splits)

lemma cache_deleteProperty_reports_true:
  "cache_deleteProperty rr s t k = (Inr b, s') \<Longrightarrow> b"
  by (induction t arbitrary: s') (auto split: sum.splits prod.splits)

lemma cache_deleteProperty_Prox_permitted:
  "ensure rr h k = Inr u \<Longrightarrow>
     cache_deleteProperty rr s (Prox i t h) k = cache_deleteProperty rr s t k"
  using cache_deleteProperty_reports_true [of rr s t k]
  by (auto split: sum.splits prod.splits)

lemma ensure_forbids:
  "forbids rr h k \<Longrightarrow> ensure rr h k = Inl (ForbiddenAction (h_moduleName h) k)"
  by (auto simp: forbids_def ensure_def getEnsurer_def split: sum.splits)

lemma ensure_permits: "permits rr h k \<Longrightarrow> ensure rr h k = Inr ()"
  by (auto simp: permits_def ensure_def getEnsurer_def split: sum.splits)

lemma ensure_Forbidden_iff:
  "ensure rr h k = Inl (ForbiddenAction (h_moduleName h) k) \<longleftrightarrow> forbids rr h k"
  by (auto simp: forbids_def ensure_def getEnsurer_def isForbidden_def
      split: sum.splits option.splits if_splits)

lemma forbids_fs: "forbids host_resolve fs_blacklisted ''fs''"
  by (simp add: forbids_def fs_blacklisted_def isForbidden_def isBlacklisted_def
      isWhitelisted_def js_and_def js_or_def)

lemma permits_m: "permits host_resolve fs_blacklisted ''/app/m.js''"
  by (simp add: permits_def fs_blacklisted_def isForbidden_def isBlacklisted_def
      isWhitelisted_def js_and_def js_or_def)

text \<open>
  C3. On the guarded view \<open>Prox i target h\<close>, a read, a write and a delete of a key the
  policy forbids each fail with the error that names the requesting module and the key,
  and leave the state alone; for a key the policy permits each is the same operation on
  the target, which for an ordinary object returns its entry, or applies the mutation
  and reports \<open>true\<close>: a read after the delete finds nothing, a read after the write
  to an extensible object finds the value written. Over an ordinary object the failure
  with that error happens
  exactly when the policy forbids the key. (When \<open>bare\<close> is set and the requested
  name itself cannot be resolved, the policy neither forbids nor permits: its
  evaluation throws the resolver's error.)
\<close>

theorem guarded_read_write_delete:
  "(forbids rr h k \<longrightarrow>
      cache_get rr s (Prox i target h) k = Inl (ForbiddenAction (h_moduleName h) k)
    \<and> cache_set rr s (Prox i target h) k v = (Inl (ForbiddenAction (h_moduleName h) k), s)
    \<and> cache_deleteProperty rr s (Prox i target h) k
        = (Inl (ForbiddenAction (h_moduleName h) k), s)
    \<and> classify (ForbiddenAction (h_moduleName h) k) = AccessViolationError
    \<and> message (ForbiddenAction (h_moduleName h) k)
        = ''Module '' @ quoted (h_moduleName h)
            @ '' has attempted forbidden action with module '' @ quoted k)
   \<and> (permits rr h k \<longrightarrow>
      cache_get rr s (Prox i target h) k = cache_get rr s target k
    \<and> cache_set rr s (Prox i target h) k v = cache_set rr s target k v
    \<and> cache_deleteProperty rr s (Prox i target h) k = cache_deleteProperty rr s target k
    \<and> cache_get rr s (Prox i (Obj a) h) k = Inr (entries (objects s a) k)
    \<and> cache_set rr s (Prox i (Obj a) h) k v
        = (Inr True, put_object s a (plain_set (objects s a) k v))
    \<and> cache_deleteProperty rr s (Prox i (Obj a) h) k
        = (Inr True, put_object s a (plain_delete (objects s a) k))
    \<and> cache_get rr (snd (cache_deleteProperty rr s (Prox i (Obj a) h) k)) (Prox i (Obj a) h) k
        = Inr None)
   \<and> (permits rr h k \<and> extensible (objects s a) \<longrightarrow>
      cache_get rr (snd (cache_set rr s (Prox i (Obj a) h) k v)) (Prox i (Obj a) h) k
        = Inr (Some v))
   \<and> (cache_get rr s (Prox i (Obj a) h) k = Inl (ForbiddenAction (h_moduleName h) k)
        \<longleftrightarrow> forbids rr h k)
   \<and> (fst (cache_set rr s (Prox i (Obj a) h) k v) = Inl (ForbiddenAction (h_moduleName h) k)
        \<longleftrightarrow> forbids rr h k)
   \<and> (fst (cache_deleteProperty rr s (Prox i (Obj a) h) k)
          = Inl (ForbiddenAction (h_moduleName h) k)
        \<longleftrightarrow> forbids rr h k)"
proof (intro conjI impI)
  assume f: "forbids rr h k"
  note e = ensure_forbids [OF f]
  show "cache_get rr s (Prox i target h) k = Inl (ForbiddenAction (h_moduleName h) k)"
    by (simp add: e)
  show "cache_set rr s (Prox i target h) k v = (Inl (ForbiddenAction (h_moduleName h) k), s)"
    by (simp add: e)
  show "cache_deleteProperty rr s (Prox i target h) k
          = (Inl (ForbiddenAction (h_moduleName h) k), s)"
    by (simp add: e)
next
  assume p: "permits rr h k"
  note e = ensure_permits [OF p]
  show "cache_get rr s (Prox i target h) k = cache_get rr s target k"
    by (simp add: e)
  show "cache_set rr s (Prox i target h) k v = cache_set rr s target k v"
    by (rule cache_set_Prox_permitted [OF e])
  show "cache_deleteProperty rr s (Prox i target h) k = cache_deleteProperty rr s target k"
    by (rule cache_deleteProperty_Prox_permitted [OF e])
  show "cache_get rr s (Prox i (Obj a) h) k = Inr (entries (objects s a) k)"
    by (simp add: e)
  show "cache_set rr s (Prox i (Obj a) h) k v
        = (Inr True, put_object s a (plain_set (objects s a) k v))"
    by (simp add: e)
  show "cache_deleteProperty rr s (Prox i (Obj a) h) k
        = (Inr True, put_object s a (plain_delete (objects s a) k))"
    by (simp add: e)
  show "cache_get rr (snd (cache_deleteProperty rr s (Prox i (Obj a) h) k)) (Prox i (Obj a) h) k
        = Inr None"
    by (simp add: e plain_delete_def)
next
  assume px: "permits rr h k \<and> extensible (objects s a)"
  then have e: "ensure rr h k = Inr ()"
    by (simp add: ensure_permits)
  show "cache_get rr (snd (cache_set rr s (Prox i (Obj a) h) k v)) (Prox i (Obj a) h) k
        = Inr (Some v)"
    using px by (simp add: e plain_set_def)
next
  show "(cache_get rr s (Prox i (Obj a) h) k = Inl (ForbiddenAction (h_moduleName h) k))
        = forbids rr h k"
    using ensure_Forbidden_iff [of rr h k] by (auto split: sum.splits)
  show "(fst (cache_set rr s (Prox i (Obj a) h) k v) = Inl (ForbiddenAction (h_moduleName h) k))
        = forbids rr h k"
    using ensure_Forbidden_iff [of rr h k] by (auto split: sum.splits)
  show "(fst (cache_deleteProperty rr s (Prox i (Obj a) h) k)
          = Inl (ForbiddenAction (h_moduleName h) k))
        = forbids rr h k"
    using ensure_Forbidden_iff [of rr h k] by (auto split: sum.splits)
qed (simp_all add: quoted_def)

theorem guarded_read_write_delete_witness:
  "forbids host_resolve fs_blacklisted ''fs''
   \<and> cache_get host_resolve boot (Prox 0 (Obj 0) fs_blacklisted) ''fs''
       = Inl (ForbiddenAction ''./m'' ''fs'')
   \<and> cache_set host_resolve boot (Prox 0 (Obj 0) fs_blacklisted) ''fs'' ''fake''
       = (Inl (ForbiddenAction ''./m'' ''fs''), boot)
   \<and> permits host_resolve fs_blacklisted ''/app/m.js''
   \<and> cache_get host_resolve boot (Prox 0 (Obj 0) fs_blacklisted) ''/app/m.js'' = Inr None
   \<and> fst (cache_set host_resolve boot (Prox 0 (Obj 0) fs_blacklisted) ''/app/m.js'' ''rec'')
       = Inr True
   \<and> entries (objects (snd (cache_set host_resolve boot (Prox 0 (Obj 0) fs_blacklisted)
         ''/app/m.js'' ''rec'')) 0) ''/app/m.js'' = Some ''rec''"
proof -
  note f = guarded_read_write_delete
    [of host_resolve fs_blacklisted "''fs''" boot 0 "Obj 0" "''fake''" 0]
  note p = guarded_read_write_delete
    [of host_resolve fs_blacklisted "''/app/m.js''" boot 0 "Obj 0" "''rec''" 0]
  from f forbids_fs
  have 1: "cache_get host_resolve boot (Prox 0 (Obj 0) fs_blacklisted) ''fs''
             = Inl (ForbiddenAction (h_moduleName fs_blacklisted) ''fs'')"
    and 2: "cache_set host_resolve boot (Prox 0 (Obj 0) fs_blacklisted) ''fs'' ''fake''
             = (Inl (ForbiddenAction (h_moduleName fs_blacklisted) ''fs''), boot)"
    by blast+
  from p permits_m
  have 3: "cache_get host_resolve boot (Prox 0 (Obj 0) fs_blacklisted) ''/app/m.js''
             = Inr (entries (objects boot 0) ''/app/m.js'')"
    and 4: "cache_set host_resolve boot (Prox 0 (Obj 0) fs_blacklisted) ''/app/m.js'' ''rec''
             = (Inr True, put_object boot 0 (plain_set (objects boot 0) ''/app/m.js'' ''rec''))"
    by blast+
  have n: "h_moduleName fs_blacklisted = ''./m''"
    by (simp add: fs_blacklisted_def)
  have b: "entries (objects boot 0) ''/app/m.js'' = None" "extensible (objects boot 0)"
    by (simp_all add: boot_def empty_cache_def)
  show ?thesis
    unfolding 1 2 3 4 n using forbids_fs permits_m b
    by (simp add: plain_set_def put_object_def)
qed

text \<open>
  C5. On the guarded view, the existence check of a forbidden key fails with the very
  error a read of that key fails with, and so does not answer \<open>false\<close>; for a permitted
  key it is the existence check on the target, which for an ordinary object tells
  whether the key has an entry.
\<close>

theorem guarded_has:
  "(forbids rr h k \<longrightarrow>
      cache_has rr s (Prox i target h) k = Inl (ForbiddenAction (h_moduleName h) k)
    \<and> cache_get rr s (Prox i target h) k = Inl (ForbiddenAction (h_moduleName h) k)
    \<and> cache_has rr s (Prox i target h) k \<noteq> Inr False)
   \<and> (permits rr h k \<longrightarrow>
      cache_has rr s (Prox i target h) k = cache_has rr s target k
    \<and> cache_has rr s (Prox i (Obj a) h) k = Inr (entries (objects s a) k \<noteq> None))"
  by (auto simp: ensure_forbids ensure_permits)

theorem guarded_has_witness:
  "forbids host_resolve fs_blacklisted ''fs''
   \<and> cache_has host_resolve boot (Prox 0 (Obj 0) fs_blacklisted) ''fs''
       = Inl (ForbiddenAction ''./m'' ''fs'')
   \<and> permits host_resolve fs_blacklisted ''/app/m.js''
   \<and> cache_has host_resolve boot (Prox 0 (Obj 0) fs_blacklisted) ''/app/m.js'' = Inr False"
proof -
  from guarded_has [of host_resolve fs_blacklisted "''fs''" boot 0 "Obj 0" 0] forbids_fs
  have 1: "cache_has host_resolve boot (Prox 0 (Obj 0) fs_blacklisted) ''fs''
             = Inl (ForbiddenAction (h_moduleName fs_blacklisted) ''fs'')"
    by blast
  from guarded_has [of host_resolve fs_blacklisted "''/app/m.js''" boot 0 "Obj 0" 0] permits_m
  have 2: "cache_has host_resolve boot (Prox 0 (Obj 0) fs_blacklisted) ''/app/m.js''
             = Inr (entries (objects boot 0) ''/app/m.js'' \<noteq> None)"
    by blast
  show ?thesis
    unfolding 1 2 using forbids_fs permits_m
    by (simp add: fs_blacklisted_def boot_def empty_cache_def)
qed

text \<open>
  C6. Whatever the handler's policy, an attempt to prevent extensions of the guarded
  view fails with the lock error, classified as an access violation, and changes
  nothing; a load that starts with a lock attempt therefore fails for every accepted
  configuration, the omitted one included.
\<close>

theorem lock_attempt_always_fails:
  "cache_preventExtensions s (Prox i target h) = (Inl (LockAttempt (h_moduleName h)), s)
   \<and> classify (LockAttempt (h_moduleName h)) = AccessViolationError
   \<and> (policy_of_options rr moduleName opts = Inr h' \<longrightarrow>
        guardedRequire rr (\<lambda>_. run rr (PreventExtensions p)) moduleName opts s
          = (Inl (LockAttempt moduleName), s\<lparr>next_id := Suc (next_id s)\<rparr>))
   \<and> guardedRequire rr (\<lambda>_. run rr (PreventExtensions p)) moduleName None s
          = (Inl (LockAttempt moduleName), s\<lparr>next_id := Suc (next_id s)\<rparr>)"
  by (auto simp: guardedRequire_def install_def policy_of_options_def destructure_def
      no_options_def split: sum.splits prod.splits if_splits)

theorem lock_attempt_always_fails_witness:
  "policy_of_options host_resolve ''./m'' (only_blacklist [''fs'']) = Inr fs_blacklisted
   \<and> guardedRequire host_resolve
        (\<lambda>_. run host_resolve (PreventExtensions (Return ''exports of m''))) ''./m''
        (only_blacklist [''fs'']) boot
       = (Inl (LockAttempt ''./m''), boot\<lparr>next_id := 1\<rparr>)
   \<and> guardedRequire host_resolve
        (\<lambda>_. run host_resolve (PreventExtensions (Return ''exports of m''))) ''./m'' None boot
       = (Inl (LockAttempt ''./m''), boot\<lparr>next_id := 1\<rparr>)"
proof -
  have h: "policy_of_options host_resolve ''./m'' (only_blacklist [''fs'']) = Inr fs_blacklisted"
    by (simp add: policy_of_options_def destructure_def only_blacklist_def host_resolve_def
        fs_blacklisted_def)
  note t = lock_attempt_always_fails
    [of boot 0 "Obj 0" fs_blacklisted host_resolve "''./m''" "only_blacklist [''fs'']"
        fs_blacklisted "Return ''exports of m''"]
  from t h
  have 1: "guardedRequire host_resolve
             (\<lambda>_. run host_resolve (PreventExtensions (Return ''exports of m''))) ''./m''
             (only_blacklist [''fs'']) boot
           = (Inl (LockAttempt ''./m''), boot\<lparr>next_id := Suc (next_id boot)\<rparr>)"
    by blast
  from t
  have 2: "guardedRequire host_resolve
             (\<lambda>_. run host_resolve (PreventExtensions (Return ''exports of m''))) ''./m''
             None boot
           = (Inl (LockAttempt ''./m''), boot\<lparr>next_id := Suc (next_id boot)\<rparr>)"
    by blast
  show ?thesis
    unfolding 1 2 using h by (simp add: boot_def)
qed

subsection \<open>The policy\<close>

text \<open>
  C2. For every configuration in which at most one of \<open>bare\<close>, a non-empty blacklist
  set and a non-empty whitelist set holds, the truth value of \<open>isForbidden\<close> is the
  chain of the specification: under \<open>bare\<close>, forbidden unless the key is the resolved
  requested name; else with a non-empty blacklist, forbidden iff a member; else with a
  non-empty whitelist, forbidden iff not a member; else never. Both sides throw the
  resolver's error when \<open>bare\<close> is set and the requested name cannot be resolved.
\<close>

theorem isForbidden_refines_spec_chain:
  assumes "mutually_exclusive bare blacklist whitelist"
  shows "map_sum id truthy (isForbidden rr blacklist whitelist bare moduleName resolvedName)
         = spec_isForbidden rr blacklist whitelist bare moduleName resolvedName"
proof -
  have pos: "\<And>A::string fset. (0 < fcard A) = (A \<noteq> {||})"
    using fcard_0_eq by (metis gr0I less_numeral_extra(3))
  show ?thesis
    using assms
    by (auto simp: mutually_exclusive_def isForbidden_def spec_isForbidden_def isBlacklisted_def
        isWhitelisted_def js_and_def js_or_def pos split: option.splits if_splits)
qed

theorem isForbidden_refines_spec_chain_witness:
  "mutually_exclusive False {|''fs''|} {||}
   \<and> map_sum id truthy (isForbidden host_resolve {|''fs''|} {||} False ''./m'' ''fs'') = Inr True
   \<and> spec_isForbidden host_resolve {|''fs''|} {||} False ''./m'' ''fs'' = Inr True"
proof -
  have h: "mutually_exclusive False {|''fs''|} {||}"
    by (simp add: mutually_exclusive_def)
  show ?thesis
    using h isForbidden_refines_spec_chain [OF h, of host_resolve "''./m''" "''fs''"]
    by (simp add: spec_isForbidden_def)
qed

subsection \<open>Configuration\<close>

lemma policy_of_options_moduleName:
  "policy_of_options rr moduleName opts = Inr h \<Longrightarrow> h_moduleName h = moduleName"
  by (auto simp: policy_of_options_def split: prod.splits if_splits sum.splits)

lemma policy_fs:
  "policy_of_options host_resolve ''./m'' (only_blacklist [''fs'']) = Inr fs_blacklisted"
  by (simp add: policy_of_options_def destructure_def only_blacklist_def host_resolve_def
      fs_blacklisted_def)

lemma policy_of_options_exclusive:
  "policy_of_options rr moduleName opts = Inr h \<Longrightarrow>
     mutually_exclusive (h_bare h) (h_blacklist h) (h_whitelist h)"
  by (auto simp: policy_of_options_def mutually_exclusive_def
      split: prod.splits if_splits sum.splits list.splits)

text \<open>
  C4. When the blacklist and the whitelist are both non-empty, or \<open>bare\<close> is set
  together with a non-empty list, the invocation fails with the error of the check that
  fired, a configuration error, whatever the resolver and the loader are; the state it
  returns is the state it was given, so nothing of the cache was touched.
\<close>

theorem invalid_combination_rejected:
  assumes "destructure opts = (blacklist, whitelist, bare)"
    and "(blacklist \<noteq> [] \<and> whitelist \<noteq> []) \<or> (bare \<and> (blacklist \<noteq> [] \<or> whitelist \<noteq> []))"
  shows "guardedRequire rr require moduleName opts s =
           (Inl (if blacklist \<noteq> [] \<and> whitelist \<noteq> [] then BothLists else BareWithList), s)
         \<and> classify (if blacklist \<noteq> [] \<and> whitelist \<noteq> [] then BothLists else BareWithList)
             = ConfigurationError"
  using assms
  by (auto simp: guardedRequire_def policy_of_options_def)

theorem invalid_combination_rejected_witness:
  "destructure
     (Some \<lparr>opt_blacklist = Some [''fs''], opt_whitelist = Some [''fs''], opt_bare = None\<rparr>)
     = ([''fs''], [''fs''], False)
   \<and> guardedRequire host_resolve (\<lambda>_. run host_resolve records_itself) ''./m''
        (Some \<lparr>opt_blacklist = Some [''fs''], opt_whitelist = Some [''fs''], opt_bare = None\<rparr>)
        boot
       = (Inl BothLists, boot)
   \<and> destructure
     (Some \<lparr>opt_blacklist = Some [''fs''], opt_whitelist = None, opt_bare = Some True\<rparr>)
     = ([''fs''], [], True)
   \<and> guardedRequire host_resolve (\<lambda>_. run host_resolve records_itself) ''./m''
        (Some \<lparr>opt_blacklist = Some [''fs''], opt_whitelist = None, opt_bare = Some True\<rparr>)
        boot
       = (Inl BareWithList, boot)"
proof -
  have d: "destructure
     (Some \<lparr>opt_blacklist = Some [''fs''], opt_whitelist = Some [''fs''], opt_bare = None\<rparr>)
     = ([''fs''], [''fs''], False)"
    by (simp add: destructure_def)
  have d': "destructure
     (Some \<lparr>opt_blacklist = Some [''fs''], opt_whitelist = None, opt_bare = Some True\<rparr>)
     = ([''fs''], [], True)"
    by (simp add: destructure_def)
  show ?thesis
    using d d'
      invalid_combination_rejected
        [OF d, of host_resolve "\<lambda>_. run host_resolve records_itself" "''./m''" boot]
      invalid_combination_rejected
        [OF d', of host_resolve "\<lambda>_. run host_resolve records_itself" "''./m''" boot]
    by simp
qed

text \<open>
  C9. When the combination of options is invalid and some entry of the two lists cannot
  be resolved, the invocation fails with the configuration error and not with the
  resolver's error for that entry; the outcome, and the policy construction as a whole,
  is the same under every other resolver, so no entry was resolved on the way.
\<close>

theorem validation_precedes_resolution:
  assumes "destructure opts = (blacklist, whitelist, bare)"
    and "(blacklist \<noteq> [] \<and> whitelist \<noteq> []) \<or> (bare \<and> (blacklist \<noteq> [] \<or> whitelist \<noteq> []))"
    and "x \<in> set (blacklist @ whitelist)" and "rr x = None"
  shows "guardedRequire rr require moduleName opts s
           = (Inl (if blacklist \<noteq> [] \<and> whitelist \<noteq> [] then BothLists else BareWithList), s)
         \<and> fst (guardedRequire rr require moduleName opts s) \<noteq> Inl (CannotResolve x)
         \<and> classify (if blacklist \<noteq> [] \<and> whitelist \<noteq> [] then BothLists else BareWithList)
             = ConfigurationError
         \<and> guardedRequire rr require moduleName opts s
             = guardedRequire rr' require moduleName opts s
         \<and> policy_of_options rr moduleName opts = policy_of_options rr' moduleName opts"
  using assms(1,2)
  by (auto simp: guardedRequire_def policy_of_options_def)

theorem validation_precedes_resolution_witness:
  "destructure
     (Some \<lparr>opt_blacklist = Some [''fs''], opt_whitelist = Some [''./missing''], opt_bare = None\<rparr>)
     = ([''fs''], [''./missing''], False)
   \<and> ''./missing'' \<in> set ([''fs''] @ [''./missing''])
   \<and> host_resolve ''./missing'' = None
   \<and> guardedRequire host_resolve (\<lambda>_. run host_resolve records_itself) ''./m''
        (Some \<lparr>opt_blacklist = Some [''fs''], opt_whitelist = Some [''./missing''],
               opt_bare = None\<rparr>) boot
       = (Inl BothLists, boot)"
proof -
  have d: "destructure
     (Some \<lparr>opt_blacklist = Some [''fs''], opt_whitelist = Some [''./missing''], opt_bare = None\<rparr>)
     = ([''fs''], [''./missing''], False)"
    by (simp add: destructure_def)
  have c: "([''fs''] \<noteq> [] \<and> [''./missing''] \<noteq> [])
           \<or> (False \<and> ([''fs''] \<noteq> [] \<or> [''./missing''] \<noteq> []))"
    by simp
  have m: "''./missing'' \<in> set ([''fs''] @ [''./missing''])"
    by simp
  have u: "host_resolve ''./missing'' = None"
    by (simp add: host_resolve_def)
  show ?thesis
    using d m u
      validation_precedes_resolution
        [where rr = host_resolve and x = "''./missing''" and rr' = "\<lambda>_. None"
           and require = "\<lambda>_. run host_resolve records_itself" and moduleName = "''./m''"
           and s = boot, OF d c m u]
    by simp
qed

subsection \<open>The invocation and the cache reference\<close>

text \<open>
  C1. Whatever the resolver, the host loader, the requested name and the options are,
  and so whatever the outcome is, the cache reference after the invocation is the
  reference the invocation found. An invocation that starts under an installed view
  ends with that view installed again, and an invocation whose loaded module invokes the
  function again ends with the reference the outer invocation found: each level puts
  back what it displaced itself.
\<close>

theorem guardedRequire_restores_cache_reference:
  "module_cache (snd (guardedRequire rr require moduleName opts s)) = module_cache s
   \<and> module_cache (snd (guardedRequire rr inner innerName innerOpts (install h s)))
       = Prox (next_id s) (module_cache s) h
   \<and> module_cache
        (snd (guardedRequire rr (reentrant rr inner innerName innerOpts) moduleName opts s))
       = module_cache s"
  unfolding guardedRequire_def reentrant_def install_def
  by (auto split: prod.splits sum.splits simp: Let_def)

theorem guardedRequire_restores_cache_reference_witness:
  "module_cache (snd (guardedRequire host_resolve
       (reentrant host_resolve (\<lambda>_. run host_resolve records_itself) ''./inner'' None)
       ''./m'' (only_blacklist [''fs'']) boot)) = Obj 0
   \<and> module_cache (snd (guardedRequire host_resolve (\<lambda>_. run host_resolve records_itself)
        ''./inner'' None (install fs_blacklisted boot))) = Prox 0 (Obj 0) fs_blacklisted"
proof -
  note t = guardedRequire_restores_cache_reference [of host_resolve
      "reentrant host_resolve (\<lambda>_. run host_resolve records_itself) ''./inner'' None"
      "''./m''" "only_blacklist [''fs'']" boot
      "\<lambda>_. run host_resolve records_itself" "''./inner''" None fs_blacklisted]
  from t have 1: "module_cache (snd (guardedRequire host_resolve
       (reentrant host_resolve (\<lambda>_. run host_resolve records_itself) ''./inner'' None)
       ''./m'' (only_blacklist [''fs'']) boot)) = module_cache boot"
    by (rule conjunct1)
  from t have 2: "module_cache (snd (guardedRequire host_resolve
        (\<lambda>_. run host_resolve records_itself) ''./inner'' None (install fs_blacklisted boot)))
       = Prox (next_id boot) (module_cache boot) fs_blacklisted"
    by (rule conjunct1 [OF conjunct2])
  show ?thesis
    unfolding 1 2 by (simp add: boot_def)
qed

lemma fails_on_fs:
  "fst (guardedRequire host_resolve (\<lambda>_. run host_resolve plants_then_requires_fs) ''./m''
         (only_blacklist [''fs'']) boot) = Inl (ForbiddenAction ''./m'' ''fs'')"
  by (simp add: guardedRequire_def policy_fs install_def plants_then_requires_fs_def
      node_load_def boot_def empty_cache_def fs_blacklisted_def ensure_def getEnsurer_def
      isForbidden_def isBlacklisted_def isWhitelisted_def js_and_def js_or_def plain_set_def
      plain_delete_def)

text \<open>
  C7, as the code has it. An invocation that fails leaves the cache reference as it
  found it. When the failure is that of the policy construction (a configuration error
  or an unresolvable list entry) the whole state is as found. When the load itself
  failed, the state is the one the load left behind with only the reference put back:
  what the load wrote or deleted before it failed stays in the cache.
\<close>

theorem failure_restores_reference_only:
  assumes "fst (guardedRequire rr require moduleName opts s) = Inl e"
  shows "module_cache (snd (guardedRequire rr require moduleName opts s)) = module_cache s
         \<and> (case policy_of_options rr moduleName opts of
               Inl e' \<Rightarrow> e' = e \<and> snd (guardedRequire rr require moduleName opts s) = s
             | Inr h \<Rightarrow>
                 fst (require moduleName (install h s)) = Inl e
               \<and> snd (guardedRequire rr require moduleName opts s)
                   = (snd (require moduleName (install h s)))\<lparr>module_cache := module_cache s\<rparr>)"
  using assms
  by (auto simp: guardedRequire_def Let_def install_def split: sum.splits prod.splits)

theorem failure_restores_reference_only_witness:
  "fst (guardedRequire host_resolve (\<lambda>_. run host_resolve plants_then_requires_fs) ''./m''
         (only_blacklist [''fs'']) boot) = Inl (ForbiddenAction ''./m'' ''fs'')
   \<and> module_cache (snd (guardedRequire host_resolve
         (\<lambda>_. run host_resolve plants_then_requires_fs) ''./m'' (only_blacklist [''fs'']) boot))
       = Obj 0
   \<and> snd (guardedRequire host_resolve
         (\<lambda>_. run host_resolve plants_then_requires_fs) ''./m'' (only_blacklist [''fs'']) boot)
       = (snd (run host_resolve plants_then_requires_fs (install fs_blacklisted boot)))
           \<lparr>module_cache := Obj 0\<rparr>"
proof -
  have b: "module_cache boot = Obj 0"
    by (simp add: boot_def)
  show ?thesis
    using fails_on_fs failure_restores_reference_only [OF fails_on_fs]
    by (simp add: policy_fs b)
qed

text \<open>
  C7, as the specification states it, fails: a module whose body plants a record in the
  cache and then requires the blacklisted \<open>fs\<close> makes the invocation fail, and the
  planted record, absent before the invocation, is in the cache after it.
\<close>

theorem failure_keeps_permitted_writes:
  "fst (guardedRequire host_resolve (\<lambda>_. run host_resolve plants_then_requires_fs) ''./m''
         (only_blacklist [''fs'']) boot) = Inl (ForbiddenAction ''./m'' ''fs'')
   \<and> entries (objects boot 0) ''/app/planted.js'' = None
   \<and> entries (objects (snd (guardedRequire host_resolve
         (\<lambda>_. run host_resolve plants_then_requires_fs) ''./m'' (only_blacklist [''fs'']) boot)) 0)
         ''/app/planted.js'' = Some ''planted record''
   \<and> objects (snd (guardedRequire host_resolve
         (\<lambda>_. run host_resolve plants_then_requires_fs) ''./m'' (only_blacklist [''fs'']) boot)) 0
       \<noteq> objects boot 0"
  by (simp add: guardedRequire_def policy_fs install_def plants_then_requires_fs_def
      node_load_def boot_def empty_cache_def fs_blacklisted_def ensure_def getEnsurer_def
      isForbidden_def isBlacklisted_def isWhitelisted_def js_and_def js_or_def plain_set_def
      plain_delete_def)

subsection \<open>Programs under the guarded view\<close>




















lemma run_guarded_direct:
  "module_cache s = Prox i (Obj a) h \<Longrightarrow>
     run rr p s
       = (case direct (ensure rr h) (h_moduleName h) p (objects s a) of
            (r, ob') \<Rightarrow> (r, put_object s a ob'))"
proof (induction p arbitrary: s)
  case (Return v)
  show ?case by simp
next
  case (Throw e)
  show ?case by simp
next
  case (Get k f)
  show ?case
    using Get(1) [of "f x" s for x] Get(2)
    by (auto split: sum.splits)
next
  case (Has k f)
  show ?case
    using Has(1) [of "f x" s for x] Has(2)
    by (auto split: sum.splits)
next
  case (Set strict k v p)
  show ?case
    using Set(1) [of "put_object s a (plain_set (objects s a) k v)"] Set(2)
    by (auto split: sum.splits prod.splits)
next
  case (Delete k p)
  show ?case
    using Delete(1) [of "put_object s a (plain_delete (objects s a) k)"] Delete(2)
    by (auto split: sum.splits prod.splits)
next
  case (PreventExtensions p)
  then show ?case by simp
next
  case (Try p k)
  obtain r ob' where d: "direct (ensure rr h) (h_moduleName h) p (objects s a) = (r, ob')"
    by (cases "direct (ensure rr h) (h_moduleName h) p (objects s a)")
  show ?case
    using Try(1) [OF Try(3)] Try(2) [of "k r" "put_object s a ob'"] Try(3) d
    by (auto split: prod.splits)
qed

lemma cache_set_lands:
  "cache_set rr s t k v = (r, s') \<Longrightarrow>
     s' = (case r of Inl e \<Rightarrow> s
           | Inr b \<Rightarrow> put_object s (underlying t) (plain_set (objects s (underlying t)) k v))"
  by (induction t arbitrary: r s') (auto split: sum.splits prod.splits)

lemma cache_deleteProperty_lands:
  "cache_deleteProperty rr s t k = (r, s') \<Longrightarrow>
     s' = (case r of Inl e \<Rightarrow> s
           | Inr b \<Rightarrow> put_object s (underlying t) (plain_delete (objects s (underlying t)) k))"
  by (induction t arbitrary: r s') (auto split: sum.splits prod.splits)



text \<open>
  Where the cache is already locked the two loads do part: the loader's strict write of
  the new record throws without the guard, and is dropped silently by the view.
\<close>

lemma locked_cache_load_differs:
  "\<not> accepts_new_keys locked_boot
   \<and> fst (guardedRequire host_resolve (\<lambda>_. run host_resolve records_itself) ''./m'' None
            locked_boot)
       = Inr ''exports of m''
   \<and> fst (run host_resolve records_itself locked_boot) = Inl (NotExtensible ''/app/m.js'')"
  by (simp add: accepts_new_keys_def guardedRequire_def policy_of_options_def destructure_def
      no_options_def install_def records_itself_def node_load_def locked_boot_def ensure_def
      getEnsurer_def isForbidden_def isBlacklisted_def isWhitelisted_def js_and_def js_or_def
      plain_set_def plain_delete_def assign_def)


text \<open>
  C10. A write or a delete through any stack of views either fails and changes nothing
  or changes exactly the ordinary object under the stack; the views store nothing. For
  an invocation over an ordinary cache whose policy construction succeeds: a permitted
  write or delete on the installed view is the write or delete on that cache; the state
  after the invocation is the state before it with the cache replaced by what the
  program's permitted operations, applied to the cache directly, make of it; a read of
  the restored cache returns the entries of that result; and for any loader the objects
  after the invocation are those the load left.
\<close>

theorem permitted_mutations_reach_original:
  assumes "module_cache s = Obj a" and "policy_of_options rr moduleName opts = Inr h"
  shows "snd (cache_set rr s' t k v)
           = (case fst (cache_set rr s' t k v) of
                Inl e \<Rightarrow> s'
              | Inr b \<Rightarrow> put_object s' (underlying t) (plain_set (objects s' (underlying t)) k v))
         \<and> snd (cache_deleteProperty rr s' t k)
           = (case fst (cache_deleteProperty rr s' t k) of
                Inl e \<Rightarrow> s'
              | Inr b \<Rightarrow> put_object s' (underlying t) (plain_delete (objects s' (underlying t)) k))
         \<and> (permits rr h k \<longrightarrow>
            cache_set rr (install h s) (module_cache (install h s)) k v
              = (Inr True, put_object (install h s) a (plain_set (objects s a) k v))
          \<and> cache_deleteProperty rr (install h s) (module_cache (install h s)) k
              = (Inr True, put_object (install h s) a (plain_delete (objects s a) k)))
         \<and> guardedRequire rr (\<lambda>_. run rr p) moduleName opts s
             = (case direct (ensure rr h) moduleName p (objects s a) of
                  (r, ob') \<Rightarrow> (r, (put_object s a ob')\<lparr>next_id := Suc (next_id s)\<rparr>))
         \<and> cache_get rr (snd (guardedRequire rr (\<lambda>_. run rr p) moduleName opts s))
               (module_cache (snd (guardedRequire rr (\<lambda>_. run rr p) moduleName opts s))) k
             = Inr (entries (snd (direct (ensure rr h) moduleName p (objects s a))) k)
         \<and> objects (snd (guardedRequire rr require moduleName opts s))
             = objects (snd (require moduleName (install h s)))"
proof -
  have n: "h_moduleName h = moduleName"
    by (rule policy_of_options_moduleName [OF assms(2)])
  have mc: "module_cache (install h s) = Prox (next_id s) (Obj a) h"
    by (simp add: install_def assms(1))
  have ob: "objects (install h s) = objects s"
    by (simp add: install_def)
  obtain r ob' where d: "direct (ensure rr h) moduleName p (objects s a) = (r, ob')"
    by (cases "direct (ensure rr h) moduleName p (objects s a)")
  have sim: "run rr p (install h s) = (r, put_object (install h s) a ob')"
    using run_guarded_direct [OF mc, of rr p] d by (simp add: n ob)
  have whole: "guardedRequire rr (\<lambda>_. run rr p) moduleName opts s
               = (r, (put_object s a ob')\<lparr>next_id := Suc (next_id s)\<rparr>)"
  proof -
    have "(put_object (install h s) a ob')\<lparr>module_cache := module_cache s\<rparr>
          = (put_object s a ob')\<lparr>next_id := Suc (next_id s)\<rparr>"
      using assms(1) by (cases s) (simp add: install_def put_object_def)
    then show ?thesis
      by (simp add: guardedRequire_def assms(2) Let_def sim)
  qed
  have single: "permits rr h k \<Longrightarrow>
            cache_set rr (install h s) (module_cache (install h s)) k v
              = (Inr True, put_object (install h s) a (plain_set (objects s a) k v))
          \<and> cache_deleteProperty rr (install h s) (module_cache (install h s)) k
              = (Inr True, put_object (install h s) a (plain_delete (objects s a) k))"
    by (simp add: mc ob ensure_permits)
  have rest: "objects (snd (guardedRequire rr require moduleName opts s))
             = objects (snd (require moduleName (install h s)))"
    by (simp add: guardedRequire_def assms(2) Let_def split: prod.splits)
  have land: "snd (cache_set rr s' t k v)
           = (case fst (cache_set rr s' t k v) of
                Inl e \<Rightarrow> s'
              | Inr b \<Rightarrow> put_object s' (underlying t) (plain_set (objects s' (underlying t)) k v))"
    "snd (cache_deleteProperty rr s' t k)
           = (case fst (cache_deleteProperty rr s' t k) of
                Inl e \<Rightarrow> s'
              | Inr b \<Rightarrow> put_object s' (underlying t) (plain_delete (objects s' (underlying t)) k))"
    using cache_set_lands [of rr s' t k v] cache_deleteProperty_lands [of rr s' t k]
    by (simp_all add: prod_eq_iff)
  have after: "cache_get rr (snd (guardedRequire rr (\<lambda>_. run rr p) moduleName opts s))
               (module_cache (snd (guardedRequire rr (\<lambda>_. run rr p) moduleName opts s))) k
             = Inr (entries (snd (direct (ensure rr h) moduleName p (objects s a))) k)"
    by (simp add: whole d assms(1))
  have whole': "guardedRequire rr (\<lambda>_. run rr p) moduleName opts s
             = (case direct (ensure rr h) moduleName p (objects s a) of
                  (r, ob') \<Rightarrow> (r, (put_object s a ob')\<lparr>next_id := Suc (next_id s)\<rparr>))"
    by (simp add: whole d)
  from land single whole' after rest show ?thesis
    by (intro conjI impI) blast+
qed

theorem permitted_mutations_reach_original_witness:
  "module_cache boot = Obj 0
   \<and> policy_of_options host_resolve ''./m'' (only_blacklist [''fs'']) = Inr fs_blacklisted
   \<and> permits host_resolve fs_blacklisted ''/app/m.js''
   \<and> fst (guardedRequire host_resolve (\<lambda>_. run host_resolve records_itself) ''./m''
        (only_blacklist [''fs'']) boot) = Inr ''exports of m''
   \<and> cache_get host_resolve
        (snd (guardedRequire host_resolve (\<lambda>_. run host_resolve records_itself) ''./m''
           (only_blacklist [''fs'']) boot))
        (module_cache (snd (guardedRequire host_resolve (\<lambda>_. run host_resolve records_itself)
           ''./m'' (only_blacklist [''fs'']) boot)))
        ''/app/m.js''
       = Inr (Some ''record of m'')"
proof -
  have b: "module_cache boot = Obj 0"
    by (simp add: boot_def)
  have e: "ensure host_resolve fs_blacklisted ''/app/m.js'' = Inr ()"
    by (rule ensure_permits [OF permits_m])
  have d: "direct (ensure host_resolve fs_blacklisted) ''./m'' records_itself (objects boot 0)
           = (Inr ''exports of m'', plain_set (objects boot 0) ''/app/m.js'' ''record of m'')"
    by (simp add: records_itself_def node_load_def e boot_def empty_cache_def plain_set_def)
  note t = permitted_mutations_reach_original
    [OF b policy_fs, where s' = boot and t = "Obj 0" and k = "''/app/m.js''" and v = "''v''"
       and p = records_itself and require = "\<lambda>_. run host_resolve records_itself"]
  from t
  have 1: "guardedRequire host_resolve (\<lambda>_. run host_resolve records_itself) ''./m''
             (only_blacklist [''fs'']) boot
           = (case direct (ensure host_resolve fs_blacklisted) ''./m'' records_itself
                     (objects boot 0) of
                (r, ob') \<Rightarrow> (r, (put_object boot 0 ob')\<lparr>next_id := Suc (next_id boot)\<rparr>))"
    by blast
  from t
  have 2: "cache_get host_resolve
        (snd (guardedRequire host_resolve (\<lambda>_. run host_resolve records_itself) ''./m''
           (only_blacklist [''fs'']) boot))
        (module_cache (snd (guardedRequire host_resolve (\<lambda>_. run host_resolve records_itself)
           ''./m'' (only_blacklist [''fs'']) boot)))
        ''/app/m.js''
       = Inr (entries (snd (direct (ensure host_resolve fs_blacklisted) ''./m'' records_itself
                (objects boot 0))) ''/app/m.js'')"
    by blast
  have 3: "entries (plain_set (objects boot 0) ''/app/m.js'' ''record of m'') ''/app/m.js''
           = Some ''record of m''"
    by (simp add: plain_set_def boot_def empty_cache_def)
  show ?thesis
    unfolding 2 using b policy_fs permits_m 3 by (simp add: 1 d)
qed

end
